theory Spec2Isabelle
  imports Main
begin

section \<open>gensystemd.py: values, effects and collaborators\<close>

text \<open>
  Python strings are modelled as \<^typ>\<open>string\<close>. Exceptions are values: a function that can
  raise returns \<open>exn + 'a\<close>, with \<open>Inl\<close> for the raised exception. Every constructor
  except \<open>KeyboardInterrupt\<close> stands for a subclass of Python's \<open>Exception\<close> and carries
  the text that \<open>str(e)\<close> gives.
\<close>

datatype exn =
    KeyboardInterrupt
  | PermissionError string
  | ValueError string
  | KeyError string
  | IndexError string
  | OtherException string

fun str_exn :: "exn \<Rightarrow> string" where
  "str_exn KeyboardInterrupt = []"
| "str_exn (PermissionError m) = m"
| "str_exn (ValueError m) = m"
| "str_exn (KeyError m) = m"
| "str_exn (IndexError m) = m"
| "str_exn (OtherException m) = m"

fun is_PermissionError :: "exn \<Rightarrow> bool" where
  "is_PermissionError (PermissionError m) = True"
| "is_PermissionError e = False"

datatype level = DEBUG | INFO | ERROR

text \<open>
  What a run does to the outside is recorded in order, one event per attempt: a log record
  handed to the logger, a directory creation, a file write, a permission change, a child
  process started with its argument vector, a text printed on standard output. The module
  sets the log level to INFO when it is loaded and \<open>--verbose\<close> only lowers it to DEBUG
  before the single debug record, so every logger call of the program emits its record.
\<close>

datatype event =
    Log level string
  | Mkdir string
  | WriteFile string string
  | Chmod string nat
  | Exec "string list"
  | Print string

record state =
  files :: "string \<rightharpoonup> string"
  trace :: "event list"
  stdout_pending :: bool

definition emit :: "event \<Rightarrow> state \<Rightarrow> state" where
  "emit e st = st\<lparr>trace := trace st @ [e]\<rparr>"

definition logger_info :: "string \<Rightarrow> state \<Rightarrow> state" where
  "logger_info msg = emit (Log INFO msg)"

definition logger_error :: "string \<Rightarrow> state \<Rightarrow> state" where
  "logger_error msg = emit (Log ERROR msg)"

definition logger_debug :: "string \<Rightarrow> state \<Rightarrow> state" where
  "logger_debug msg = emit (Log DEBUG msg)"

text \<open>
  The collaborators the program consumes: the effective user id, the filesystem operations
  of \<open>save_service_file\<close>, \<open>subprocess.run\<close>, \<open>print\<close> and the flush of standard
  output when the interpreter exits. Each operation either completes or raises; a user
  interrupt is the exception \<open>KeyboardInterrupt\<close> raised by the operation that was
  blocking. The state records, besides the files and the events, whether text handed to
  standard output may still be in its buffer.
\<close>

datatype io_result = IoOk | IoRaises exn

text \<open>
  A child process that was started and has exited is \<open>Exited rc out err\<close>: its return code
  and its two captured streams. With \<open>text=True\<close> a captured stream is decoded; bytes that
  are not valid in the locale's encoding make \<open>subprocess.run\<close> raise
  \<open>UnicodeDecodeError\<close>, whose text \<open>Undecodable\<close> carries. \<open>RunRaises\<close> is a child that
  could not be started, or an interrupt while waiting for it.
\<close>

datatype captured = Text string | Undecodable string

datatype proc_result = Exited int captured captured | RunRaises exn

record env =
  geteuid :: nat
  mkdir_result :: "string \<Rightarrow> io_result"
  write_result :: "string \<Rightarrow> string \<Rightarrow> io_result"
  chmod_result :: "string \<Rightarrow> nat \<Rightarrow> io_result"
  run_result :: "string list \<Rightarrow> proc_result"
  print_result :: "string \<Rightarrow> io_result"
  exit_flush_result :: io_result

section \<open>String operations of the Python library\<close>

fun join :: "string \<Rightarrow> string list \<Rightarrow> string" where
  "join sep [] = []"
| "join sep [x] = x"
| "join sep (x # y # ys) = x @ sep @ join sep (y # ys)"

definition endswith :: "string \<Rightarrow> string \<Rightarrow> bool" where
  "endswith s suf = (length suf \<le> length s \<and> drop (length s - length suf) s = suf)"

definition startswith :: "string \<Rightarrow> string \<Rightarrow> bool" where
  "startswith s pre = (take (length pre) s = pre)"

text \<open>\<open>s.split(d)\<close> for a one-character separator: never empty, \<open>''''.split(d) = ['''']\<close>.\<close>

fun split_on :: "char \<Rightarrow> string \<Rightarrow> string list" where
  "split_on d [] = [[]]"
| "split_on d (c # cs) =
     (if c = d then [] # split_on d cs
      else (case split_on d cs of
              [] \<Rightarrow> [[c]]
            | p # ps \<Rightarrow> (c # p) # ps))"

text \<open>
  \<open>s.strip()\<close>. A \<^typ>\<open>char\<close> is a code point below 256; these are the ones Python
  counts as whitespace, U+0085 and U+00A0 among them.
\<close>

definition isspace :: "char \<Rightarrow> bool" where
  "isspace c = (c \<in> {CHR '' '', CHR 0x09, CHR 0x0A, CHR 0x0B, CHR 0x0C, CHR 0x0D,
                      CHR 0x1C, CHR 0x1D, CHR 0x1E, CHR 0x1F, CHR 0x85, CHR 0xA0})"

definition strip :: "string \<Rightarrow> string" where
  "strip s = rev (dropWhile isspace (rev (dropWhile isspace s)))"

text \<open>\<open>str(n)\<close> for an integer, as an f-string formats a return code.\<close>

fun str_nat :: "nat \<Rightarrow> string" where
  "str_nat n =
     (if n < 10 then [''0123456789'' ! n]
      else str_nat (n div 10) @ [''0123456789'' ! (n mod 10)])"

definition str_int :: "int \<Rightarrow> string" where
  "str_int i = (if i < 0 then CHR ''-'' # str_nat (nat (- i)) else str_nat (nat i))"

subsection \<open>\<open>str.format\<close> with keyword arguments\<close>

text \<open>
  \<open>template.format(**kwargs)\<close> scans the template from left to right and renders as it
  goes: \<open>{{\<close> and \<open>}}\<close> are literal braces, \<open>{name}\<close> is replaced by the value of the
  keyword argument \<open>name\<close>, a single \<open>}\<close> or an unclosed \<open>{\<close> raises \<open>ValueError\<close>, a
  name that is no keyword raises \<open>KeyError\<close>, and an empty or numeric name asks for a
  positional argument, of which there are none: \<open>IndexError\<close> with the index asked for,
  which is 0 for an empty name (the first automatic index; no field is reached after it),
  or \<open>ValueError\<close> for a number too long for a 64-bit index. Only the template is scanned: a
  value that has been substituted is copied and never looked at again.
  Conversions, format specifications and attribute or index lookups inside a field
  (\<open>!\<close>, \<open>:\<close>, \<open>.\<close>, \<open>[\<close>, and a nested \<open>{\<close>) are outside the fragment modelled here and
  give \<open>OtherException\<close>; the service template uses none of them.
\<close>

definition digits_value :: "string \<Rightarrow> nat" where
  "digits_value ds = foldl (\<lambda>a c. 10 * a + (of_char c - 48)) 0 ds"

definition lookup_field :: "(string \<times> string) list \<Rightarrow> string \<Rightarrow> exn + string" where
  "lookup_field kwargs name =
     (if list_ex (\<lambda>c. c \<in> set ''!:.[{'') name
        then Inl (OtherException ''field syntax outside the modelled fragment'')
      else if list_all (\<lambda>c. c \<in> set ''0123456789'') name
        then (if digits_value (butlast name) > 922337203685477580
                then Inl (ValueError ''Too many decimal digits in format string'')
              else Inl (IndexError (''Replacement index '' @ str_nat (digits_value name)
                                      @ '' out of range for positional args tuple'')))
      else (case map_of kwargs name of
              None \<Rightarrow> Inl (KeyError (CHR 0x27 # name @ [CHR 0x27]))
            | Some v \<Rightarrow> Inr v))"

fun format_text :: "(string \<times> string) list \<Rightarrow> string \<Rightarrow> exn + string"
  and format_field :: "(string \<times> string) list \<Rightarrow> string \<Rightarrow> string \<Rightarrow> exn + string"
where
  "format_text kwargs [] = Inr []"
| "format_text kwargs [c] =
     (if c = CHR ''{'' then Inl (ValueError ''Single '{' encountered in format string'')
      else if c = CHR ''}'' then Inl (ValueError ''Single '}' encountered in format string'')
      else Inr [c])"
| "format_text kwargs (c # d # cs) =
     (if c = CHR ''{'' then
        (if d = CHR ''{'' then
           (case format_text kwargs cs of Inl e \<Rightarrow> Inl e | Inr r \<Rightarrow> Inr (c # r))
         else format_field kwargs [] (d # cs))
      else if c = CHR ''}'' then
        (if d = CHR ''}'' then
           (case format_text kwargs cs of Inl e \<Rightarrow> Inl e | Inr r \<Rightarrow> Inr (c # r))
         else Inl (ValueError ''Single '}' encountered in format string''))
      else (case format_text kwargs (d # cs) of Inl e \<Rightarrow> Inl e | Inr r \<Rightarrow> Inr (c # r)))"
| "format_field kwargs name [] = Inl (ValueError ''expected '}' before end of string'')"
| "format_field kwargs name (c # cs) =
     (if c = CHR ''}'' then
        (case lookup_field kwargs name of
           Inl e \<Rightarrow> Inl e
         | Inr v \<Rightarrow> (case format_text kwargs cs of Inl e \<Rightarrow> Inl e | Inr r \<Rightarrow> Inr (v @ r)))
      else format_field kwargs (name @ [c]) cs)"

text \<open>The replacement fields of a format string, in order (\<open>string.Formatter().parse\<close>).\<close>

fun fields_text :: "string \<Rightarrow> string list"
  and fields_field :: "string \<Rightarrow> string \<Rightarrow> string list"
where
  "fields_text [] = []"
| "fields_text [c] = []"
| "fields_text (c # d # cs) =
     (if c = CHR ''{'' then (if d = CHR ''{'' then fields_text cs else fields_field [] (d # cs))
      else if c = CHR ''}'' then (if d = CHR ''}'' then fields_text cs else [])
      else fields_text (d # cs))"
| "fields_field name [] = []"
| "fields_field name (c # cs) =
     (if c = CHR ''}'' then name # fields_text cs else fields_field (name @ [c]) cs)"

section \<open>The service template and its renderer\<close>

text \<open>A name between single quotes, as the log messages show it.\<close>

definition quoted :: "string \<Rightarrow> string" where
  "quoted s = [CHR 0x27] @ s @ [CHR 0x27]"

definition SERVICE_TEMPLATE :: string where
  \<open>SERVICE_TEMPLATE =
     ''[Unit]\<newline>Description={description}\<newline>After=network.target network-online.target\<newline>Wants=network-online.target\<newline>\<newline>[Service]\<newline>Type=simple\<newline>ExecStart=/bin/bash -c "{command}"\<newline>Restart=always\<newline>RestartSec=10\<newline>User=root\<newline>\<newline>[Install]\<newline>WantedBy=multi-user.target\<newline>''\<close>

definition generate_service_content :: "string \<Rightarrow> string \<Rightarrow> state \<Rightarrow> (exn + string) \<times> state" where
  "generate_service_content service_name command st =
     (let st1 = logger_info (''Generating service content for '' @ quoted service_name) st;
          description = ''Custom service: '' @ service_name
      in case format_text [(''description'', description), (''command'', command)] SERVICE_TEMPLATE of
           Inl e \<Rightarrow> (Inl e, st1)
         | Inr content \<Rightarrow> (Inr content, logger_info ''Service content generated successfully'' st1))"

section \<open>Paths (\<open>pathlib\<close>, POSIX flavour)\<close>

text \<open>
  A path is its root (empty, \<open>/\<close> or \<open>//\<close>) and its components. Parsing drops empty
  components and \<open>.\<close> and keeps \<open>..\<close>; exactly two leading slashes are a root of their
  own. Joining with \<open>/\<close> appends the components of the right operand, unless the right
  operand has a root: then it replaces the left one altogether.
\<close>

record path =
  root :: string
  parts :: "string list"

definition parse_root :: "string \<Rightarrow> string" where
  "parse_root s =
     (let n = length (takeWhile (\<lambda>c. c = CHR ''/'') s)
      in if n = 0 then [] else if n = 2 then ''//'' else ''/'')"

definition PurePath :: "string \<Rightarrow> path" where
  "PurePath s =
     \<lparr>root = parse_root s,
      parts = filter (\<lambda>x. x \<noteq> [] \<and> x \<noteq> ''.'') (split_on (CHR ''/'') s)\<rparr>"

definition truediv :: "path \<Rightarrow> string \<Rightarrow> path" where
  "truediv p key =
     (let q = PurePath key
      in if root q \<noteq> [] then q else \<lparr>root = root p, parts = parts p @ parts q\<rparr>)"

definition str_path :: "path \<Rightarrow> string" where
  "str_path p =
     (if root p = [] \<and> parts p = [] then ''.'' else root p @ join ''/'' (parts p))"

definition parent :: "path \<Rightarrow> path" where
  "parent p = p\<lparr>parts := butlast (parts p)\<rparr>"

section \<open>The components of gensystemd.py\<close>

text \<open>Lines 62-63 of \<open>get_service_path\<close>: the name with the suffix forced.\<close>

definition with_service_suffix :: "string \<Rightarrow> string" where
  "with_service_suffix service_name =
     (if \<not> endswith service_name ''.service'' then service_name @ ''.service''
      else service_name)"

definition get_service_path :: "string \<Rightarrow> state \<Rightarrow> path \<times> state" where
  "get_service_path service_name st =
     (let service_path = truediv (PurePath ''/etc/systemd/system'') (with_service_suffix service_name)
      in (service_path, logger_info (''Service path: '' @ str_path service_path) st))"

definition check_root_privileges :: "env \<Rightarrow> state \<Rightarrow> bool \<times> state" where
  "check_root_privileges e st =
     (if geteuid e \<noteq> 0 then
        (False,
         logger_error ''Please run with sudo: sudo python3 gensystemd.py ...''
           (logger_error ''Root privileges required for installing/saving systemd services'' st))
      else (True, st))"

text \<open>
  The body of the \<open>try\<close> in \<open>save_service_file\<close>: create the parent directory, write
  the file, set mode \<open>0o644\<close> (420). The result is the exception that ended it, if any.
  The file is in \<open>files\<close> once the write has completed, whatever \<open>chmod\<close> does after it;
  what a write that raised has left behind is not tracked.
\<close>

definition save_service_file_try :: "env \<Rightarrow> path \<Rightarrow> string \<Rightarrow> state \<Rightarrow> exn option \<times> state" where
  "save_service_file_try e service_path content st =
     (let p = str_path service_path;
          d = str_path (parent service_path);
          st1 = emit (Mkdir d) (logger_info (''Saving service file to '' @ p) st)
      in case mkdir_result e d of
           IoRaises x \<Rightarrow> (Some x, st1)
         | IoOk \<Rightarrow>
             (let st2 = emit (WriteFile p content) st1
              in case write_result e p content of
                   IoRaises x \<Rightarrow> (Some x, st2)
                 | IoOk \<Rightarrow>
                     (let st3 = emit (Chmod p 420) (st2\<lparr>files := (files st2)(p \<mapsto> content)\<rparr>)
                      in case chmod_result e p 420 of
                           IoRaises x \<Rightarrow> (Some x, st3)
                         | IoOk \<Rightarrow>
                             (None, logger_info (''Service file saved successfully to '' @ p) st3))))"

definition save_service_file :: "env \<Rightarrow> path \<Rightarrow> string \<Rightarrow> state \<Rightarrow> (exn + bool) \<times> state" where
  "save_service_file e service_path content st =
     (case save_service_file_try e service_path content st of
        (None, st') \<Rightarrow> (Inr True, st')
      | (Some x, st') \<Rightarrow>
          if is_PermissionError x then
            (Inr False,
             logger_error ''Make sure you're running with sudo privileges''
               (logger_error (''Permission denied when writing to '' @ str_path service_path) st'))
          else if x \<noteq> KeyboardInterrupt then
            (Inr False, logger_error (''Error saving service file: '' @ str_exn x) st')
          else (Inl x, st'))"

text \<open>
  \<open>subprocess.run(..., text=True, check=True)\<close> decodes the captured streams, standard
  output first, before it looks at the return code: an undecodable stream raises
  \<open>UnicodeDecodeError\<close>, which the second \<open>except\<close> clause catches whatever the return
  code is. On decoded streams it raises \<open>CalledProcessError\<close> for a non-zero return
  code, which the first \<open>except\<close> clause catches at once: it is the branch \<open>rc \<noteq> 0\<close>.
  The optional \<open>service_name\<close> is appended when it is truthy, that is given and not empty.
\<close>

definition full_command :: "string list \<Rightarrow> string option \<Rightarrow> string list" where
  "full_command command service_name =
     [''systemctl''] @ command @
     (case service_name of None \<Rightarrow> [] | Some n \<Rightarrow> if n \<noteq> [] then [n] else [])"

definition run_systemctl_command ::
  "env \<Rightarrow> string list \<Rightarrow> string option \<Rightarrow> state \<Rightarrow> (exn + bool) \<times> state" where
  "run_systemctl_command e command service_name st =
     (let argv = full_command command service_name;
          st1 = emit (Exec argv) (logger_info (''Executing: '' @ join '' '' argv) st)
      in case run_result e argv of
           Exited rc (Undecodable m) captured_err \<Rightarrow>
             (Inr False, logger_error (''Error running systemctl command: '' @ m) st1)
         | Exited rc (Text out) (Undecodable m) \<Rightarrow>
             (Inr False, logger_error (''Error running systemctl command: '' @ m) st1)
         | Exited rc (Text out) (Text err) \<Rightarrow>
             if rc = 0 then
               (Inr True,
                logger_info ''Command completed successfully''
                  (if strip out \<noteq> [] then logger_info (''Command output: '' @ strip out) st1 else st1))
             else
               (let st2 = logger_error (''Command failed with return code '' @ str_int rc) st1;
                    st3 = (if out \<noteq> [] then logger_error (''stdout: '' @ out) st2 else st2);
                    st4 = (if err \<noteq> [] then logger_error (''stderr: '' @ err) st3 else st3)
                in (Inr False, st4))
         | RunRaises x \<Rightarrow>
             if x \<noteq> KeyboardInterrupt then
               (Inr False, logger_error (''Error running systemctl command: '' @ str_exn x) st1)
             else (Inl x, st1))"

definition install_service :: "env \<Rightarrow> string \<Rightarrow> string \<Rightarrow> state \<Rightarrow> (exn + bool) \<times> state" where
  "install_service e service_name content st =
     (let st1 = logger_info (''Installing systemd service '' @ quoted service_name) st
      in case check_root_privileges e st1 of
           (False, st2) \<Rightarrow> (Inr False, st2)
         | (True, st2) \<Rightarrow>
             (case get_service_path service_name st2 of
                (service_path, st3) \<Rightarrow>
                  (case save_service_file e service_path content st3 of
                     (Inl x, st4) \<Rightarrow> (Inl x, st4)
                   | (Inr False, st4) \<Rightarrow> (Inr False, st4)
                   | (Inr True, st4) \<Rightarrow>
                       (case run_systemctl_command e [''daemon-reload''] None
                               (logger_info ''Reloading systemd daemon...'' st4) of
                          (Inl x, st5) \<Rightarrow> (Inl x, st5)
                        | (Inr False, st5) \<Rightarrow>
                            (Inr False, logger_error ''Failed to reload systemd daemon'' st5)
                        | (Inr True, st5) \<Rightarrow>
                            (case run_systemctl_command e [''enable''] (Some service_name)
                                    (logger_info (''Enabling service '' @ quoted service_name
                                                    @ '' to start at boot...'') st5) of
                               (Inl x, st6) \<Rightarrow> (Inl x, st6)
                             | (Inr False, st6) \<Rightarrow>
                                 (Inr False,
                                  logger_error (''Failed to enable service '' @ quoted service_name) st6)
                             | (Inr True, st6) \<Rightarrow>
                                 (Inr True,
                                  logger_info (''Check status with: sudo systemctl status '' @ service_name)
                                    (logger_info (''You can now start it with: sudo systemctl start ''
                                                    @ service_name)
                                       (logger_info (''Service '' @ quoted service_name
                                                       @ '' installed and enabled successfully!'')
                                          st6))))))))"

definition save_only_service :: "env \<Rightarrow> string \<Rightarrow> string \<Rightarrow> state \<Rightarrow> (exn + bool) \<times> state" where
  "save_only_service e service_name content st =
     (let st1 = logger_info (''Saving systemd service '' @ quoted service_name
                               @ '' (without daemon reload)'') st
      in case check_root_privileges e st1 of
           (False, st2) \<Rightarrow> (Inr False, st2)
         | (True, st2) \<Rightarrow>
             (case get_service_path service_name st2 of
                (service_path, st3) \<Rightarrow>
                  (case save_service_file e service_path content st3 of
                     (Inl x, st4) \<Rightarrow> (Inl x, st4)
                   | (Inr False, st4) \<Rightarrow> (Inr False, st4)
                   | (Inr True, st4) \<Rightarrow>
                       (Inr True,
                        logger_info (''  sudo systemctl start '' @ service_name)
                          (logger_info (''  sudo systemctl enable '' @ service_name)
                             (logger_info ''  sudo systemctl daemon-reload''
                                (logger_info ''To complete installation, run:''
                                   (logger_info (''Service '' @ quoted service_name
                                                   @ '' saved successfully!'') st4))))))))"

text \<open>
  \<open>print\<close> hands its text to standard output, which may keep it in its buffer: from
  then on output may be pending.
\<close>

definition write_stdout :: "string \<Rightarrow> state \<Rightarrow> state" where
  "write_stdout t st = (emit (Print t) st)\<lparr>stdout_pending := True\<rparr>"

text \<open>
  \<open>main\<close> after \<open>parser.parse_args()\<close>: the parsed command line is the record \<open>args\<close>.
  The result is the return value of \<open>main\<close>, or the exception that left it.
\<close>

record args =
  arg_name :: string
  arg_command :: string
  arg_install :: bool
  arg_save :: bool
  arg_verbose :: bool

definition main :: "env \<Rightarrow> args \<Rightarrow> state \<Rightarrow> (exn + int) \<times> state" where
  "main e a st =
     (let st1 = (if arg_verbose a then logger_debug ''Verbose logging enabled'' st else st)
      in if arg_install a \<and> arg_save a then
           (Inr 1, logger_error ''Cannot use both --install and --save flags together'' st1)
         else
           (case generate_service_content (arg_name a) (arg_command a)
                   (logger_info (''Command: '' @ arg_command a)
                      (logger_info (''Starting systemd service generation for ''
                                      @ quoted (arg_name a)) st1)) of
              (Inl x, st2) \<Rightarrow>
                if x \<noteq> KeyboardInterrupt then
                  (Inr 1, logger_error (''Error generating service content: '' @ str_exn x) st2)
                else (Inl x, st2)
            | (Inr service_content, st2) \<Rightarrow>
                if arg_install a then
                  (case install_service e (arg_name a) service_content st2 of
                     (Inl x, st3) \<Rightarrow> (Inl x, st3)
                   | (Inr success, st3) \<Rightarrow> (Inr (if success then 0 else 1), st3))
                else if arg_save a then
                  (case save_only_service e (arg_name a) service_content st2 of
                     (Inl x, st3) \<Rightarrow> (Inl x, st3)
                   | (Inr success, st3) \<Rightarrow> (Inr (if success then 0 else 1), st3))
                else
                  (let st3 = write_stdout service_content
                               (logger_info ''Outputting service content to stdout'' st2)
                   in case print_result e service_content of
                        IoRaises x \<Rightarrow> (Inl x, st3)
                      | IoOk \<Rightarrow>
                          (Inr 0,
                           logger_info ''Service content generated successfully. Use --install or --save to write to system.''
                             st3))))"

text \<open>
  \<open>sys.exit(code)\<close>: the interpreter flushes the standard streams before the process
  ends, and a flush that fails turns the exit status into 120. Only pending output can
  make it fail; the log records are written to standard error as they are emitted.
\<close>

definition sys_exit :: "env \<Rightarrow> int \<Rightarrow> state \<Rightarrow> int \<times> state" where
  "sys_exit e code st =
     (if stdout_pending st then
        (case exit_flush_result e of IoOk \<Rightarrow> (code, st) | IoRaises x \<Rightarrow> (120, st))
      else (code, st))"

text \<open>The \<open>__main__\<close> block: the exit status of the process.\<close>

definition run_script :: "env \<Rightarrow> args \<Rightarrow> state \<Rightarrow> int \<times> state" where
  "run_script e a st =
     (case main e a st of
        (Inr code, st') \<Rightarrow> sys_exit e code st'
      | (Inl x, st') \<Rightarrow>
          if x = KeyboardInterrupt then
            sys_exit e 1 (logger_info ''Operation cancelled by user'' st')
          else sys_exit e 1 (logger_error (''Unexpected error: '' @ str_exn x) st'))"

section \<open>Observations on a run\<close>

text \<open>
  The effects of a run are the events other than log records, in the order they happened.
\<close>

fun is_effect :: "event \<Rightarrow> bool" where
  "is_effect (Log l m) = False"
| "is_effect ev = True"

definition effects_of :: "state \<Rightarrow> event list" where
  "effects_of st = filter is_effect (trace st)"

definition initial_state :: state where
  "initial_state = \<lparr>files = Map.empty, trace = [], stdout_pending = False\<rparr>"

text \<open>The Target Path of a service name: what \<open>get_service_path\<close> returns for it.\<close>

definition target_path :: "string \<Rightarrow> path" where
  "target_path service_name = fst (get_service_path service_name initial_state)"

text \<open>A supervisor command fails when \<open>run_systemctl_command\<close> answers \<open>False\<close> for it.\<close>

fun is_text :: "captured \<Rightarrow> bool" where
  "is_text (Text t) = True"
| "is_text (Undecodable m) = False"

definition run_fails :: "proc_result \<Rightarrow> bool" where
  "run_fails r =
     (case r of
        Exited rc out err \<Rightarrow> rc \<noteq> 0 \<or> \<not> (is_text out \<and> is_text err)
      | RunRaises x \<Rightarrow> x \<noteq> KeyboardInterrupt)"

text \<open>The lines of a text (separated by line feeds) that start with a given key.\<close>

definition lines_starting :: "string \<Rightarrow> string \<Rightarrow> string list" where
  "lines_starting key text = filter (\<lambda>l. startswith l key) (split_on (CHR 0x0A) text)"

text \<open>
  Where a path leads once each \<open>..\<close> has been followed, in a tree without symbolic links
  (\<open>..\<close> at the root stays at the root), and whether that is strictly below a directory.
\<close>

fun collapse :: "string list \<Rightarrow> string list \<Rightarrow> string list" where
  "collapse acc [] = rev acc"
| "collapse acc (x # xs) = (if x = ''..'' then collapse (drop 1 acc) xs else collapse (x # acc) xs)"

definition resolved :: "path \<Rightarrow> string list" where
  "resolved p = collapse [] (parts p)"

definition lies_inside :: "path \<Rightarrow> path \<Rightarrow> bool" where
  "lies_inside d p =
     (root p = root d \<and> length (resolved d) < length (resolved p)
      \<and> take (length (resolved d)) (resolved p) = resolved d)"

text \<open>
  Fake sets of collaborators: a root user for whom every operation succeeds, the same
  for an unprivileged user, and a root user whose supervisor reloads but refuses to enable.
\<close>

definition root_env :: env where
  "root_env =
     \<lparr>geteuid = 0,
      mkdir_result = (\<lambda>d. IoOk),
      write_result = (\<lambda>p c. IoOk),
      chmod_result = (\<lambda>p m. IoOk),
      run_result = (\<lambda>argv. Exited 0 (Text []) (Text [])),
      print_result = (\<lambda>t. IoOk),
      exit_flush_result = IoOk\<rparr>"

definition user_env :: env where
  "user_env = root_env\<lparr>geteuid := 1000\<rparr>"

definition enable_fails_env :: env where
  "enable_fails_env =
     root_env\<lparr>run_result :=
       (\<lambda>argv. if argv = [''systemctl'', ''daemon-reload''] then Exited 0 (Text []) (Text [])
               else Exited 1 (Text []) (Text ''Failed to enable unit: Unit file is masked.''))\<rparr>"


definition garbled_env :: env where
  "garbled_env =
     root_env\<lparr>run_result :=
       (\<lambda>argv. Exited 0
          (Undecodable (quoted ''utf-8'' @ '' codec can't decode byte 0xff in position 0: invalid start byte''))
          (Text []))\<rparr>"



section \<open>Facts about the components\<close>

lemma effects_logger [simp]:
  "effects_of (logger_info m st) = effects_of st"
  "effects_of (logger_error m st) = effects_of st"
  "effects_of (logger_debug m st) = effects_of st"
  by (simp_all add: effects_of_def logger_info_def logger_error_def logger_debug_def emit_def)

lemma files_logger [simp]:
  "files (logger_info m st) = files st"
  "files (logger_error m st) = files st"
  "files (logger_debug m st) = files st"
  by (simp_all add: logger_info_def logger_error_def logger_debug_def emit_def)

lemma effects_emit [simp]:
  "effects_of (emit ev st) = effects_of st @ (if is_effect ev then [ev] else [])"
  by (simp add: effects_of_def emit_def)

lemma files_emit [simp]: "files (emit ev st) = files st"
  by (simp add: emit_def)

lemma effects_files_update [simp]: "effects_of (st\<lparr>files := f\<rparr>) = effects_of st"
  by (simp add: effects_of_def)

lemma effects_pending_update [simp]: "effects_of (st\<lparr>stdout_pending := b\<rparr>) = effects_of st"
  by (simp add: effects_of_def)

lemma pending_logger [simp]:
  "stdout_pending (logger_info m st) = stdout_pending st"
  "stdout_pending (logger_error m st) = stdout_pending st"
  "stdout_pending (logger_debug m st) = stdout_pending st"
  "stdout_pending (emit ev st) = stdout_pending st"
  by (simp_all add: logger_info_def logger_error_def logger_debug_def emit_def)

lemma get_service_path_fst [simp]: "fst (get_service_path n st) = target_path n"
  by (simp add: get_service_path_def target_path_def Let_def)

lemma get_service_path_snd [simp]:
  "effects_of (snd (get_service_path n st)) = effects_of st"
  "files (snd (get_service_path n st)) = files st"
  "stdout_pending (snd (get_service_path n st)) = stdout_pending st"
  by (simp_all add: get_service_path_def Let_def)

lemma check_root_fst [simp]: "fst (check_root_privileges e st) = (geteuid e = 0)"
  by (simp add: check_root_privileges_def)

lemma check_root_snd [simp]:
  "effects_of (snd (check_root_privileges e st)) = effects_of st"
  "files (snd (check_root_privileges e st)) = files st"
  "stdout_pending (snd (check_root_privileges e st)) = stdout_pending st"
  by (simp_all add: check_root_privileges_def)

lemma run_fst:
  "fst (run_systemctl_command e cmd sn st) =
     (case run_result e (full_command cmd sn) of
        Exited rc out err \<Rightarrow> Inr (rc = 0 \<and> is_text out \<and> is_text err)
      | RunRaises x \<Rightarrow> if x \<noteq> KeyboardInterrupt then Inr False else Inl x)"
  by (simp add: run_systemctl_command_def Let_def split: proc_result.splits captured.splits)

lemma run_snd [simp]:
  "effects_of (snd (run_systemctl_command e cmd sn st)) = effects_of st @ [Exec (full_command cmd sn)]"
  "files (snd (run_systemctl_command e cmd sn st)) = files st"
  "stdout_pending (snd (run_systemctl_command e cmd sn st)) = stdout_pending st"
  by (simp_all add: run_systemctl_command_def Let_def split: proc_result.splits captured.splits)


lemma save_pending [simp]:
  "stdout_pending (snd (save_service_file e p c st)) = stdout_pending st"
  by (simp add: save_service_file_def save_service_file_try_def Let_def split: io_result.splits)


lemma save_ok:
  assumes "mkdir_result e (str_path (parent p)) = IoOk"
    and "write_result e (str_path p) c = IoOk"
    and "chmod_result e (str_path p) 420 = IoOk"
  shows "fst (save_service_file e p c st) = Inr True"
    and "effects_of (snd (save_service_file e p c st)) =
           effects_of st @ [Mkdir (str_path (parent p)), WriteFile (str_path p) c, Chmod (str_path p) 420]"
    and "files (snd (save_service_file e p c st)) = (files st)(str_path p \<mapsto> c)"
  using assms by (simp_all add: save_service_file_def save_service_file_try_def Let_def)



lemma flow_pending [simp]:
  "stdout_pending (snd (install_service e n c st)) = stdout_pending st"
  "stdout_pending (snd (save_only_service e n c st)) = stdout_pending st"
  by (simp_all add: install_service_def save_only_service_def split_beta Let_def
      split: sum.splits bool.splits)

lemma format_template:
  \<open>format_text [(''description'', d), (''command'', c)] SERVICE_TEMPLATE =
     Inr (''[Unit]\<newline>Description='' @ d @ ''\<newline>After=network.target network-online.target\<newline>Wants=network-online.target\<newline>\<newline>[Service]\<newline>Type=simple\<newline>ExecStart=/bin/bash -c "'' @ c @ ''"\<newline>Restart=always\<newline>RestartSec=10\<newline>User=root\<newline>\<newline>[Install]\<newline>WantedBy=multi-user.target\<newline>'')\<close>
  by (simp add: SERVICE_TEMPLATE_def lookup_field_def)

lemma generate_fst:
  \<open>fst (generate_service_content n c st) =
     Inr (''[Unit]\<newline>Description=Custom service: '' @ n @ ''\<newline>After=network.target network-online.target\<newline>Wants=network-online.target\<newline>\<newline>[Service]\<newline>Type=simple\<newline>ExecStart=/bin/bash -c "'' @ c @ ''"\<newline>Restart=always\<newline>RestartSec=10\<newline>User=root\<newline>\<newline>[Install]\<newline>WantedBy=multi-user.target\<newline>'')\<close>
  by (simp add: generate_service_content_def format_template Let_def)

lemma generate_snd [simp]:
  "effects_of (snd (generate_service_content n c st)) = effects_of st"
  "files (snd (generate_service_content n c st)) = files st"
  "stdout_pending (snd (generate_service_content n c st)) = stdout_pending st"
  by (simp_all add: generate_service_content_def format_template Let_def)

lemma split_on_nonempty: "split_on d s \<noteq> []"
  by (cases s) (auto split: list.splits)

lemma split_on_line:
  "d \<notin> set a \<Longrightarrow> split_on d (a @ b) = (a @ hd (split_on d b)) # tl (split_on d b)"
  by (induction a) (auto simp: split_on_nonempty split: list.splits)

lemma endswith_append: "endswith (p @ s) s"
  by (simp add: endswith_def)

lemma endswith_iff: "endswith n s \<longleftrightarrow> (\<exists>p. n = p @ s)"
proof
  assume h: "endswith n s"
  then have "n = take (length n - length s) n @ s"
    by (metis append_take_drop_id endswith_def)
  then show "\<exists>p. n = p @ s" ..
next
  assume "\<exists>p. n = p @ s"
  then show "endswith n s" by (auto simp: endswith_append)
qed

lemma with_service_suffix_ends: "endswith (with_service_suffix n) ''.service''"
  unfolding with_service_suffix_def using endswith_append [of n "''.service''"] by simp

lemma with_service_suffix_idem: "with_service_suffix (with_service_suffix n) = with_service_suffix n"
  using with_service_suffix_ends [of n] by (simp add: with_service_suffix_def)

lemma target_path_eq:
  "target_path n = truediv (PurePath ''/etc/systemd/system'') (with_service_suffix n)"
  by (simp add: target_path_def get_service_path_def Let_def)


lemma target_path_my_app:
  "target_path ''my-app'' = \<lparr>root = ''/'', parts = [''etc'', ''systemd'', ''system'', ''my-app.service'']\<rparr>"
  by (simp add: target_path_def get_service_path_def with_service_suffix_def endswith_def
      truediv_def PurePath_def parse_root_def Let_def)

lemma target_path_evil:
  "target_path ''../evil'' =
     \<lparr>root = ''/'', parts = [''etc'', ''systemd'', ''system'', ''..'', ''evil.service'']\<rparr>"
  by (simp add: target_path_def get_service_path_def with_service_suffix_def endswith_def
      truediv_def PurePath_def parse_root_def Let_def)

lemma root_env_ok:
  "mkdir_result root_env d = IoOk" "write_result root_env q t = IoOk"
  "chmod_result root_env q m = IoOk" "geteuid root_env = 0"
  "run_result root_env argv = Exited 0 (Text []) (Text [])" "print_result root_env t = IoOk"
  "exit_flush_result root_env = IoOk"
  by (simp_all add: root_env_def)




lemma run_fails_fst:
  "run_fails (run_result e (full_command cmd sn)) \<Longrightarrow>
     fst (run_systemctl_command e cmd sn st) = Inr False"
  by (auto simp: run_fst run_fails_def split: proc_result.splits)

lemma run_ok_fst:
  "run_result e (full_command cmd sn) = Exited 0 (Text out) (Text err) \<Longrightarrow>
     fst (run_systemctl_command e cmd sn st) = Inr True"
  by (simp add: run_fst)

lemma sys_exit_ok: "exit_flush_result e = IoOk \<Longrightarrow> sys_exit e code st = (code, st)"
  by (simp add: sys_exit_def)

section \<open>The claims\<close>

subsection \<open>C1\<close>




subsection \<open>C2\<close>

text \<open>
  C2 (amended). For every name and every command string that contain no line feed, the text
  returned by the template renderer has exactly one line starting with \<open>Description=\<close>,
  which is \<open>Description=Custom service: <name>\<close>, and exactly one line starting with
  \<open>ExecStart=\<close>, which is \<open>ExecStart=/bin/bash -c "<command>"\<close>: the command stands
  in it verbatim.
\<close>

theorem rendered_lines_without_newlines:
  assumes "CHR 0x0A \<notin> set name" and "CHR 0x0A \<notin> set command"
  shows \<open>\<exists>content. fst (generate_service_content name command st) = Inr content
           \<and> lines_starting ''Description='' content = [''Description=Custom service: '' @ name]
           \<and> lines_starting ''ExecStart='' content = [''ExecStart=/bin/bash -c "'' @ command @ ''"'']\<close>
  using assms by (simp add: generate_fst lines_starting_def startswith_def split_on_line)

text \<open>C2, witness: the example of the specification, \<open>backup-service\<close>.\<close>

theorem rendered_lines_without_newlines_witness:
  \<open>CHR 0x0A \<notin> set ''backup-service'' \<and> CHR 0x0A \<notin> set ''/usr/local/bin/backup.sh'' \<and>
   (\<exists>content. fst (generate_service_content ''backup-service'' ''/usr/local/bin/backup.sh'' initial_state) = Inr content
           \<and> lines_starting ''Description='' content = [''Description=Custom service: backup-service'']
           \<and> lines_starting ''ExecStart='' content = [''ExecStart=/bin/bash -c "/usr/local/bin/backup.sh"''])\<close>
  using rendered_lines_without_newlines [of "''backup-service''" "''/usr/local/bin/backup.sh''" initial_state] by simp

text \<open>
  C2 as stated fails: a name with a line feed in it is copied as it is, and the rendered
  text then has two lines starting with \<open>Description=\<close>.
\<close>

theorem rendered_lines_newline_in_name:
  "map_sum id (lines_starting ''Description='')
     (fst (generate_service_content ''a\<newline>Description=b'' ''true'' initial_state)) =
   Inr [''Description=Custom service: a'', ''Description=b'']"
  by (simp add: generate_fst lines_starting_def startswith_def)

subsection \<open>C3\<close>

text \<open>
  C3. When the effective user id is not 0, the save-only flow and the install flow both
  return failure, and neither has attempted a filesystem operation or started a supervisor
  command: the run adds no effect and leaves the files as they were.
\<close>

theorem unprivileged_flows_abort:
  assumes "geteuid e \<noteq> 0"
  shows "fst (save_only_service e n c st) = Inr False
       \<and> fst (install_service e n c st) = Inr False
       \<and> effects_of (snd (save_only_service e n c st)) = effects_of st
       \<and> effects_of (snd (install_service e n c st)) = effects_of st
       \<and> files (snd (save_only_service e n c st)) = files st
       \<and> files (snd (install_service e n c st)) = files st"
  using assms by (simp add: save_only_service_def install_service_def split_beta Let_def)

text \<open>
  C3, witness: an unprivileged user, from the initial state.
\<close>

theorem unprivileged_flows_abort_witness:
  "geteuid user_env \<noteq> 0
       \<and> fst (save_only_service user_env ''my-app'' ''text'' initial_state) = Inr False
       \<and> fst (install_service user_env ''my-app'' ''text'' initial_state) = Inr False
       \<and> effects_of (snd (save_only_service user_env ''my-app'' ''text'' initial_state)) = []
       \<and> effects_of (snd (install_service user_env ''my-app'' ''text'' initial_state)) = []
       \<and> files (snd (save_only_service user_env ''my-app'' ''text'' initial_state)) = Map.empty
       \<and> files (snd (install_service user_env ''my-app'' ''text'' initial_state)) = Map.empty"
  using unprivileged_flows_abort [of user_env "''my-app''" "''text''" initial_state]
  by (simp add: user_env_def root_env_def initial_state_def effects_of_def)

subsection \<open>C4\<close>

text \<open>
  C4. In the install flow of a root user, when the file write succeeds, \<open>daemon-reload\<close>
  exits with 0 and \<open>enable\<close> fails, the flow returns failure; its effects are the three
  steps of the write, then one \<open>daemon-reload\<close>, then one \<open>enable\<close>, in that order and
  nothing after them; and the written file is still there with its content.
\<close>

theorem install_enable_failure_keeps_file:
  assumes "geteuid e = 0"
    and "mkdir_result e (str_path (parent (target_path n))) = IoOk"
    and "write_result e (str_path (target_path n)) c = IoOk"
    and "chmod_result e (str_path (target_path n)) 420 = IoOk"
    and "run_result e (full_command [''daemon-reload''] None) = Exited 0 (Text out) (Text err)"
    and "run_fails (run_result e (full_command [''enable''] (Some n)))"
  shows "fst (install_service e n c st) = Inr False
   \<and> effects_of (snd (install_service e n c st)) = effects_of st @
         [Mkdir (str_path (parent (target_path n))), WriteFile (str_path (target_path n)) c,
          Chmod (str_path (target_path n)) 420,
          Exec (full_command [''daemon-reload''] None), Exec (full_command [''enable''] (Some n))]
   \<and> files (snd (install_service e n c st)) (str_path (target_path n)) = Some c"
  using assms
  by (simp add: install_service_def split_beta save_ok run_ok_fst run_fails_fst Let_def)

text \<open>
  C4, witness: a supervisor that reloads and then refuses to enable \<open>my-app\<close>.
\<close>

theorem install_enable_failure_keeps_file_witness:
  "geteuid enable_fails_env = 0
   \<and> mkdir_result enable_fails_env ''/etc/systemd/system'' = IoOk
   \<and> write_result enable_fails_env ''/etc/systemd/system/my-app.service'' ''text'' = IoOk
   \<and> chmod_result enable_fails_env ''/etc/systemd/system/my-app.service'' 420 = IoOk
   \<and> run_result enable_fails_env [''systemctl'', ''daemon-reload''] = Exited 0 (Text []) (Text [])
   \<and> run_fails (run_result enable_fails_env [''systemctl'', ''enable'', ''my-app''])
   \<and> fst (install_service enable_fails_env ''my-app'' ''text'' initial_state) = Inr False
   \<and> effects_of (snd (install_service enable_fails_env ''my-app'' ''text'' initial_state)) =
         [Mkdir ''/etc/systemd/system'', WriteFile ''/etc/systemd/system/my-app.service'' ''text'',
          Chmod ''/etc/systemd/system/my-app.service'' 420,
          Exec [''systemctl'', ''daemon-reload''], Exec [''systemctl'', ''enable'', ''my-app'']]
   \<and> files (snd (install_service enable_fails_env ''my-app'' ''text'' initial_state))
         ''/etc/systemd/system/my-app.service'' = Some ''text''"
  using install_enable_failure_keeps_file [of enable_fails_env "''my-app''" "''text''" "[]" "[]" initial_state]
  by (simp add: enable_fails_env_def root_env_def target_path_my_app str_path_def parent_def
      full_command_def run_fails_def initial_state_def effects_of_def)

subsection \<open>C5\<close>




subsection \<open>C6\<close>

text \<open>
  C6. The path resolver returns the base directory \<open>/etc/systemd/system\<close> joined with the
  name, to which \<open>.service\<close> is appended exactly when the name does not end with it (an exact,
  case-sensitive suffix). The path depends on the name alone, and the call touches neither the
  files nor the effects of the run (it logs the path). Resolving \<open>foo\<close> and \<open>foo.service\<close>
  gives the same path, and resolving the normalized name again gives the same path.
\<close>

theorem get_service_path_suffix_rule:
  "fst (get_service_path n st) =
     truediv (PurePath ''/etc/systemd/system'')
       (if endswith n ''.service'' then n else n @ ''.service'')
   \<and> (endswith n ''.service'' \<longleftrightarrow> (\<exists>p. n = p @ ''.service''))
   \<and> fst (get_service_path n st) = fst (get_service_path n st')
   \<and> effects_of (snd (get_service_path n st)) = effects_of st
   \<and> files (snd (get_service_path n st)) = files st
   \<and> fst (get_service_path ''foo'' st) = fst (get_service_path ''foo.service'' st)
   \<and> fst (get_service_path (with_service_suffix n) st) = fst (get_service_path n st)"
proof -
  have a: "fst (get_service_path n st) =
     truediv (PurePath ''/etc/systemd/system'')
       (if endswith n ''.service'' then n else n @ ''.service'')"
    by (simp add: target_path_eq with_service_suffix_def)
  have b: "endswith n ''.service'' \<longleftrightarrow> (\<exists>p. n = p @ ''.service'')"
    by (rule endswith_iff)
  have c: "fst (get_service_path ''foo'' st) = fst (get_service_path ''foo.service'' st)"
    by (simp add: target_path_eq with_service_suffix_def endswith_def)
  have d: "fst (get_service_path (with_service_suffix n) st) = fst (get_service_path n st)"
    by (simp add: target_path_eq with_service_suffix_idem)
  from a b c d show ?thesis by simp
qed

text \<open>
  C6, witness: the name \<open>foo\<close>.
\<close>

theorem get_service_path_suffix_rule_witness:
  "str_path (fst (get_service_path ''foo'' initial_state)) = ''/etc/systemd/system/foo.service''
   \<and> str_path (fst (get_service_path ''foo.service'' initial_state)) = ''/etc/systemd/system/foo.service''
   \<and> with_service_suffix ''foo'' = ''foo.service''
   \<and> fst (get_service_path (with_service_suffix ''foo'') initial_state) = fst (get_service_path ''foo'' initial_state)"
  using get_service_path_suffix_rule [of "''foo''" initial_state initial_state]
  by (simp add: target_path_def get_service_path_def with_service_suffix_def endswith_def
      truediv_def PurePath_def parse_root_def str_path_def Let_def)

subsection \<open>C7\<close>

text \<open>
  C7 (amended). The supervisor-command runner returns success exactly when the child process
  was launched, exited with 0 and both captured streams could be decoded as text. On a
  non-zero return code with decoded streams it returns failure and reports the return code,
  the captured standard output and the captured standard error (each stream when it is not
  empty) as error records. When a captured stream cannot be decoded, whatever the return code,
  when the process cannot be started, or when anything else but an interrupt is raised, it
  returns failure and reports the exception.
\<close>

theorem run_systemctl_command_outcome:
  "(fst (run_systemctl_command e cmd sn st) = Inr True
      \<longleftrightarrow> (\<exists>out err. run_result e (full_command cmd sn) = Exited 0 (Text out) (Text err)))
   \<and> (run_result e (full_command cmd sn) = Exited rc (Text out) (Text err) \<and> rc \<noteq> 0 \<longrightarrow>
        fst (run_systemctl_command e cmd sn st) = Inr False
        \<and> trace (snd (run_systemctl_command e cmd sn st)) =
            trace st @
            [Log INFO (''Executing: '' @ join '' '' (full_command cmd sn)),
             Exec (full_command cmd sn),
             Log ERROR (''Command failed with return code '' @ str_int rc)]
            @ (if out \<noteq> [] then [Log ERROR (''stdout: '' @ out)] else [])
            @ (if err \<noteq> [] then [Log ERROR (''stderr: '' @ err)] else []))
   \<and> (run_result e (full_command cmd sn) = Exited rc (Undecodable m) cerr
        \<or> run_result e (full_command cmd sn) = Exited rc (Text out) (Undecodable m) \<longrightarrow>
        fst (run_systemctl_command e cmd sn st) = Inr False
        \<and> trace (snd (run_systemctl_command e cmd sn st)) =
            trace st @
            [Log INFO (''Executing: '' @ join '' '' (full_command cmd sn)),
             Exec (full_command cmd sn),
             Log ERROR (''Error running systemctl command: '' @ m)])
   \<and> (run_result e (full_command cmd sn) = RunRaises x \<and> x \<noteq> KeyboardInterrupt \<longrightarrow>
        fst (run_systemctl_command e cmd sn st) = Inr False
        \<and> trace (snd (run_systemctl_command e cmd sn st)) =
            trace st @
            [Log INFO (''Executing: '' @ join '' '' (full_command cmd sn)),
             Exec (full_command cmd sn),
             Log ERROR (''Error running systemctl command: '' @ str_exn x)])"
proof -
  have a: "fst (run_systemctl_command e cmd sn st) = Inr True
      \<longleftrightarrow> (\<exists>out err. run_result e (full_command cmd sn) = Exited 0 (Text out) (Text err))"
    by (auto simp add: run_fst split: proc_result.splits captured.splits elim: is_text.elims)
  have b: "run_result e (full_command cmd sn) = Exited rc (Text out) (Text err) \<and> rc \<noteq> 0 \<longrightarrow>
        fst (run_systemctl_command e cmd sn st) = Inr False
        \<and> trace (snd (run_systemctl_command e cmd sn st)) =
            trace st @
            [Log INFO (''Executing: '' @ join '' '' (full_command cmd sn)),
             Exec (full_command cmd sn),
             Log ERROR (''Command failed with return code '' @ str_int rc)]
            @ (if out \<noteq> [] then [Log ERROR (''stdout: '' @ out)] else [])
            @ (if err \<noteq> [] then [Log ERROR (''stderr: '' @ err)] else [])"
    by (simp add: run_systemctl_command_def Let_def emit_def logger_info_def logger_error_def)
  have c: "run_result e (full_command cmd sn) = Exited rc (Undecodable m) cerr
        \<or> run_result e (full_command cmd sn) = Exited rc (Text out) (Undecodable m) \<longrightarrow>
        fst (run_systemctl_command e cmd sn st) = Inr False
        \<and> trace (snd (run_systemctl_command e cmd sn st)) =
            trace st @
            [Log INFO (''Executing: '' @ join '' '' (full_command cmd sn)),
             Exec (full_command cmd sn),
             Log ERROR (''Error running systemctl command: '' @ m)]"
    by (auto simp add: run_systemctl_command_def Let_def emit_def logger_info_def logger_error_def)
  have d: "run_result e (full_command cmd sn) = RunRaises x \<and> x \<noteq> KeyboardInterrupt \<longrightarrow>
        fst (run_systemctl_command e cmd sn st) = Inr False
        \<and> trace (snd (run_systemctl_command e cmd sn st)) =
            trace st @
            [Log INFO (''Executing: '' @ join '' '' (full_command cmd sn)),
             Exec (full_command cmd sn),
             Log ERROR (''Error running systemctl command: '' @ str_exn x)]"
    by (simp add: run_systemctl_command_def Let_def emit_def logger_info_def logger_error_def)
  from a b c d show ?thesis by blast
qed

text \<open>
  C7, witness: \<open>systemctl enable my-app\<close> exiting with 1 and a message on standard error.
\<close>

theorem run_systemctl_command_outcome_witness:
  "run_result enable_fails_env [''systemctl'', ''enable'', ''my-app'']
      = Exited 1 (Text []) (Text ''Failed to enable unit: Unit file is masked.'')
   \<and> fst (run_systemctl_command enable_fails_env [''enable''] (Some ''my-app'') initial_state) = Inr False
   \<and> trace (snd (run_systemctl_command enable_fails_env [''enable''] (Some ''my-app'') initial_state)) =
        [Log INFO ''Executing: systemctl enable my-app'',
         Exec [''systemctl'', ''enable'', ''my-app''],
         Log ERROR ''Command failed with return code 1'',
         Log ERROR ''stderr: Failed to enable unit: Unit file is masked.'']"
  using run_systemctl_command_outcome [of enable_fails_env "[''enable'']" "Some ''my-app''" initial_state 1
      "[]" "''Failed to enable unit: Unit file is masked.''"]
  by (simp add: enable_fails_env_def root_env_def full_command_def initial_state_def
      str_int_def)

text \<open>
  C7 as stated fails: a child that was launched and exited with 0, with bytes on its standard
  output that are no text in the locale's encoding, makes the runner return failure.
\<close>

theorem undecodable_output_is_failure:
  "run_result garbled_env [''systemctl'', ''daemon-reload''] =
     Exited 0
       (Undecodable (quoted ''utf-8'' @ '' codec can't decode byte 0xff in position 0: invalid start byte''))
       (Text [])
   \<and> fst (run_systemctl_command garbled_env [''daemon-reload''] None initial_state) = Inr False"
  by (simp add: run_fst full_command_def garbled_env_def root_env_def)

subsection \<open>C8\<close>

text \<open>
  C8 (amended). The generated file is produced from one fixed template with exactly two
  substitution points, \<open>description\<close> and \<open>command\<close>; the values substituted are
  \<open>Custom service: \<close> followed by the name, and the command verbatim.
\<close>

theorem template_two_substitution_points:
  \<open>fields_text SERVICE_TEMPLATE = [''description'', ''command''] \<and>
   fst (generate_service_content n c st) =
     format_text [(''description'', ''Custom service: '' @ n), (''command'', c)] SERVICE_TEMPLATE \<and>
   fst (generate_service_content n c st) =
     Inr (''[Unit]\<newline>Description=Custom service: '' @ n @ ''\<newline>After=network.target network-online.target\<newline>Wants=network-online.target\<newline>\<newline>[Service]\<newline>Type=simple\<newline>ExecStart=/bin/bash -c "'' @ c @ ''"\<newline>Restart=always\<newline>RestartSec=10\<newline>User=root\<newline>\<newline>[Install]\<newline>WantedBy=multi-user.target\<newline>'')\<close>
  by (simp add: generate_fst format_template) (simp add: SERVICE_TEMPLATE_def)

text \<open>C8 as stated fails: the template has two substitution points, not four.\<close>

theorem template_fields_not_four: "length (fields_text SERVICE_TEMPLATE) = 2 \<and> length (fields_text SERVICE_TEMPLATE) \<noteq> 4"
  by (simp add: SERVICE_TEMPLATE_def)

subsection \<open>C9\<close>

text \<open>
  C9 (amended). For every name and every command string, lone braces included, the template
  renderer returns a rendered text and raises nothing, and the command stands in that text
  verbatim: format expansion scans the fixed template only, never a substituted value.
\<close>

theorem renderer_never_raises:
  "\<exists>before after. fst (generate_service_content n c st) = Inr (before @ c @ after)"
proof -
  have \<open>fst (generate_service_content n c st) =
     Inr ((''[Unit]\<newline>Description=Custom service: '' @ n @ ''\<newline>After=network.target network-online.target\<newline>Wants=network-online.target\<newline>\<newline>[Service]\<newline>Type=simple\<newline>ExecStart=/bin/bash -c "'') @ c @ ''"\<newline>Restart=always\<newline>RestartSec=10\<newline>User=root\<newline>\<newline>[Install]\<newline>WantedBy=multi-user.target\<newline>'')\<close>
    by (simp add: generate_fst)
  then show ?thesis by blast
qed

text \<open>
  C9 as stated fails: for a command with a lone \<open>{\<close> the renderer returns the rendered
  text, the brace copied into the \<open>ExecStart=\<close> line.
\<close>

theorem renderer_accepts_lone_brace:
  \<open>fst (generate_service_content ''svc'' ''echo {'' initial_state) =
     Inr ''[Unit]\<newline>Description=Custom service: svc\<newline>After=network.target network-online.target\<newline>Wants=network-online.target\<newline>\<newline>[Service]\<newline>Type=simple\<newline>ExecStart=/bin/bash -c "echo {"\<newline>Restart=always\<newline>RestartSec=10\<newline>User=root\<newline>\<newline>[Install]\<newline>WantedBy=multi-user.target\<newline>''\<close>
  by (simp add: generate_fst)

subsection \<open>C10\<close>

text \<open>
  C10. For the service name \<open>../evil\<close> the path resolver returns
  \<open>/etc/systemd/system/../evil.service\<close>, which leads to \<open>/etc/systemd/evil.service\<close> and so
  not inside the base directory; the save-only and the install flow of a root user accept the
  name, exit with 0 and write the rendered file at that path.
\<close>

theorem target_path_escapes_base:
  "str_path (target_path ''../evil'') = ''/etc/systemd/system/../evil.service''
   \<and> resolved (target_path ''../evil'') = [''etc'', ''systemd'', ''evil.service'']
   \<and> \<not> lies_inside (PurePath ''/etc/systemd/system'') (target_path ''../evil'')
   \<and> fst (run_script root_env
         \<lparr>arg_name = ''../evil'', arg_command = ''true'', arg_install = False, arg_save = True,
          arg_verbose = False\<rparr> initial_state) = 0
   \<and> dom (files (snd (run_script root_env
         \<lparr>arg_name = ''../evil'', arg_command = ''true'', arg_install = False, arg_save = True,
          arg_verbose = False\<rparr> initial_state))) = {''/etc/systemd/system/../evil.service''}
   \<and> fst (run_script root_env
         \<lparr>arg_name = ''../evil'', arg_command = ''true'', arg_install = True, arg_save = False,
          arg_verbose = False\<rparr> initial_state) = 0
   \<and> dom (files (snd (run_script root_env
         \<lparr>arg_name = ''../evil'', arg_command = ''true'', arg_install = True, arg_save = False,
          arg_verbose = False\<rparr> initial_state))) = {''/etc/systemd/system/../evil.service''}"
proof -
  have p: "str_path (target_path ''../evil'') = ''/etc/systemd/system/../evil.service''"
    by (simp add: target_path_evil str_path_def)
  have r: "resolved (target_path ''../evil'') = [''etc'', ''systemd'', ''evil.service'']"
    by (simp add: target_path_evil resolved_def)
  have b: "resolved (PurePath ''/etc/systemd/system'') = [''etc'', ''systemd'', ''system'']"
    by (simp add: resolved_def PurePath_def)
  have l: "\<not> lies_inside (PurePath ''/etc/systemd/system'') (target_path ''../evil'')"
    by (simp add: lies_inside_def r b)
  have s: "fst (run_script root_env
         \<lparr>arg_name = ''../evil'', arg_command = ''true'', arg_install = False, arg_save = True,
          arg_verbose = False\<rparr> initial_state) = 0
   \<and> dom (files (snd (run_script root_env
         \<lparr>arg_name = ''../evil'', arg_command = ''true'', arg_install = False, arg_save = True,
          arg_verbose = False\<rparr> initial_state))) = {''/etc/systemd/system/../evil.service''}"
    by (simp add: run_script_def main_def save_only_service_def split_beta Let_def generate_fst
        save_ok root_env_ok sys_exit_ok p) (simp add: initial_state_def)
  have i: "fst (run_script root_env
         \<lparr>arg_name = ''../evil'', arg_command = ''true'', arg_install = True, arg_save = False,
          arg_verbose = False\<rparr> initial_state) = 0
   \<and> dom (files (snd (run_script root_env
         \<lparr>arg_name = ''../evil'', arg_command = ''true'', arg_install = True, arg_save = False,
          arg_verbose = False\<rparr> initial_state))) = {''/etc/systemd/system/../evil.service''}"
    by (simp add: run_script_def main_def install_service_def split_beta Let_def generate_fst
        save_ok run_fst root_env_ok sys_exit_ok p) (simp add: initial_state_def)
  from p r l s i show ?thesis by simp
qed

end
